theory Spec2Isabelle
  imports Complex_Main
begin

section \<open>Conventions of the embedding\<close>

text \<open>
  The repository is Python. Its numbers (ints and floats) are embedded as exact rationals
  (\<^typ>\<open>rat\<close>), scores that the code only ever builds from integer literals as
  \<^typ>\<open>int\<close>. Rounding of binary floating point is not part of the embedding; the concrete
  evaluations below are at inputs where every decisive comparison is either between two
  copies of the same literal or between values that are far apart.

  A dict read with \<open>d.get(k, default)\<close> is a record whose field \<open>k\<close> is optional
  (\<open>None\<close>: the key is absent); a read \<open>d[k]\<close> of an absent key is \<open>KeyError\<close>.
  Every raise of the source is a value of \<open>py_error\<close> on the left of a sum.
\<close>

datatype py_error = KeyError | IndexError | ValueError | ZeroDivisionError | OverflowError

definition get_default :: "'a option \<Rightarrow> 'a \<Rightarrow> 'a" where
  "get_default v d = (case v of None \<Rightarrow> d | Some x \<Rightarrow> x)"

section \<open>system\_validator.py\<close>

type_synonym polygon = "(rat \<times> rat) list"


text \<open>
  \<open>_decode_validation_params\<close>: the embedded base64 payload is the JSON text
  \<^verbatim>\<open>{"polygon":[[-124.733174,25.898697],[-166.448597,68.005556],[-159.782143,67.418556],[-156.542969,20.601183],[-81.459594,26.125289],[-81.277778,25.898697]]}\<close>,
  so decoding succeeds and yields the six vertices below. The constructor stores them in
  \<open>_validation_data\<close> and no code path changes them afterwards.
\<close>

definition decode_validation_params :: polygon where
  "decode_validation_params =
     [(-124.733174, 25.898697),
      (-166.448597, 68.005556),
      (-159.782143, 67.418556),
      (-156.542969, 20.601183),
      (-81.459594, 26.125289),
      (-81.277778, 25.898697)]"

text \<open>One pass of the body of the \<open>for\<close> loop of \<open>_point_in_polygon\<close>: the four nested tests
  and the toggle of \<open>inside\<close>.\<close>

definition edge_toggle :: "rat \<Rightarrow> rat \<Rightarrow> rat \<times> rat \<Rightarrow> rat \<times> rat \<Rightarrow> bool \<Rightarrow> bool" where
  "edge_toggle x y p1 p2 inside =
     (case p1 of (p1x, p1y) \<Rightarrow> case p2 of (p2x, p2y) \<Rightarrow>
        if y > min p1y p2y then
          if y \<le> max p1y p2y then
            if x \<le> max p1x p2x then
              if p1y \<noteq> p2y then
                (let xinters = (y - p1y) * (p2x - p1x) / (p2y - p1y) + p1x
                 in if p1x = p2x \<or> x \<le> xinters then \<not> inside else inside)
              else inside
            else inside
          else inside
        else inside)"

text \<open>The loop \<open>for i in range(1, n + 1)\<close>, carrying \<open>(p1x, p1y)\<close> and \<open>inside\<close>.\<close>

fun edge_loop :: "rat \<Rightarrow> rat \<Rightarrow> polygon \<Rightarrow> nat list \<Rightarrow> rat \<times> rat \<Rightarrow> bool \<Rightarrow> bool" where
  "edge_loop x y poly [] p1 inside = inside"
| "edge_loop x y poly (i # rest) p1 inside =
     (let p2 = poly ! (i mod length poly)
      in edge_loop x y poly rest p2 (edge_toggle x y p1 p2 inside))"

text \<open>\<open>_point_in_polygon\<close>; \<open>polygon[0]\<close> raises \<open>IndexError\<close> on an empty list. With a non-empty
  list every index \<open>i % n\<close> is in range.\<close>

definition point_in_polygon :: "rat \<Rightarrow> rat \<Rightarrow> polygon \<Rightarrow> py_error + bool" where
  "point_in_polygon latitude longitude poly =
     (let x = longitude; y = latitude; n = length poly
      in case poly of
           [] \<Rightarrow> Inl IndexError
         | p0 # _ \<Rightarrow> Inr (edge_loop x y poly [1..<n + 1] p0 False))"

record geofence_result =
  valid :: bool
  signal_strength :: rat
  system_health :: rat
  calibration_status :: string

record last_validation_rec =
  lv_timestamp :: rat
  lv_position :: "rat \<times> rat"
  lv_result :: geofence_result

text \<open>The mutable fields of a \<open>SystemValidator\<close>; its polygon is the constant
  \<^const>\<open>decode_validation_params\<close>.\<close>

record system_validator =
  simulator_mode :: bool
  last_validation :: "last_validation_rec option"

definition new_system_validator :: system_validator where
  "new_system_validator = \<lparr>simulator_mode = False, last_validation = None\<rparr>"

definition set_simulator_mode :: "system_validator \<Rightarrow> bool \<Rightarrow> system_validator" where
  "set_simulator_mode v enabled = v\<lparr>simulator_mode := enabled\<rparr>"

text \<open>
  \<open>hash(str(v)) % 100\<close>: Python salts string hashes per process, so the hash is a parameter
  \<open>hash_str\<close> of the model (the hash of the printed number). Python's \<open>%\<close> with a positive
  divisor is non-negative, as \<open>mod\<close> on \<^typ>\<open>int\<close> is.
\<close>

definition validate_operational_area ::
  "(rat \<Rightarrow> int) \<Rightarrow> system_validator \<Rightarrow> rat \<Rightarrow> rat \<Rightarrow> py_error + geofence_result" where
  "validate_operational_area hash_str v latitude longitude =
     (if simulator_mode v then
        Inr \<lparr>valid = True,
             signal_strength = 95 + 5 * of_int (hash_str (latitude + longitude) mod 100) / 100,
             system_health = 98,
             calibration_status = ''SIM_CALIBRATED''\<rparr>
      else
        case point_in_polygon latitude longitude decode_validation_params of
          Inl e \<Rightarrow> Inl e
        | Inr within_bounds \<Rightarrow>
            if \<not> within_bounds then
              Inr \<lparr>valid = False,
                   signal_strength = 15 + 25 * of_int (hash_str latitude mod 100) / 100,
                   system_health = 25 + 35 * of_int (hash_str longitude mod 100) / 100,
                   calibration_status = ''POOR_SIGNAL''\<rparr>
            else
              Inr \<lparr>valid = True,
                   signal_strength = 80 + 15 * of_int (hash_str latitude mod 100) / 100,
                   system_health = 85 + 10 * of_int (hash_str longitude mod 100) / 100,
                   calibration_status = ''OPERATIONAL''\<rparr>)"

text \<open>\<open>perform_system_validation\<close>: the verdict and the validator with its
  \<open>_last_validation\<close> rewritten. \<open>now\<close> is the reading of \<open>time.time()\<close>.\<close>

definition perform_system_validation ::
  "(rat \<Rightarrow> int) \<Rightarrow> rat \<Rightarrow> system_validator \<Rightarrow> rat \<Rightarrow> rat
     \<Rightarrow> py_error + (bool \<times> system_validator)" where
  "perform_system_validation hash_str now v latitude longitude =
     (case validate_operational_area hash_str v latitude longitude of
        Inl e \<Rightarrow> Inl e
      | Inr validation_result \<Rightarrow>
          (let system_valid =
                 (valid validation_result \<and>
                  signal_strength validation_result > 70 \<and>
                  system_health validation_result > 75)
           in if system_valid then
                Inr (system_valid,
                     v\<lparr>last_validation :=
                         Some \<lparr>lv_timestamp = now,
                               lv_position = (latitude, longitude),
                               lv_result = validation_result\<rparr>\<rparr>)
              else Inr (system_valid, v\<lparr>last_validation := None\<rparr>)))"

text \<open>The module-level \<open>_system_validator\<close> is \<open>None\<close> until the first call.\<close>

definition get_system_validator :: "system_validator option \<Rightarrow> system_validator" where
  "get_system_validator g = (case g of None \<Rightarrow> new_system_validator | Some v \<Rightarrow> v)"

text \<open>\<open>validate_mission_area\<close>: takes the module-level instance, returns the verdict and the
  instance the module holds afterwards.\<close>

definition validate_mission_area ::
  "(rat \<Rightarrow> int) \<Rightarrow> rat \<Rightarrow> system_validator option \<Rightarrow> rat \<Rightarrow> rat \<Rightarrow> bool
     \<Rightarrow> py_error + (bool \<times> system_validator)" where
  "validate_mission_area hash_str now g latitude longitude is_simulation =
     (let validator = set_simulator_mode (get_system_validator g) is_simulation
      in perform_system_validation hash_str now validator latitude longitude)"

text \<open>
  One admissible hash function, used where a closed evaluation needs a concrete one.
\<close>

definition fixed_hash :: "rat \<Rightarrow> int" where
  "fixed_hash v = 42"

section \<open>ai\_human\_mission\_planner.py\<close>

text \<open>
  The mission-parameters dict and its nested dicts. The scorers read every key with
  \<open>.get\<close>, so every field is optional; keys that no scorer reads are left out.
\<close>

record aircraft_params =
  takeoff_weight :: "rat option"
  max_flight_time :: "rat option"

record flight_plan_params =
  estimated_duration :: "rat option"
  max_altitude :: "rat option"

record weather_params =
  wind_speed :: "rat option"
  visibility :: "rat option"
  condition :: "string option"

record location_params =
  latitude :: "rat option"
  longitude :: "rat option"

record mission_params =
  aircraft :: "aircraft_params option"
  flight_plan :: "flight_plan_params option"
  weather :: "weather_params option"
  location :: "location_params option"
  controlled_airspace :: "bool option"
  airspace_authorization :: "bool option"
  is_simulation :: "bool option"

text \<open>The empty dict \<open>{}\<close> given as default to \<open>.get\<close>, at each nested type.\<close>

definition no_aircraft :: aircraft_params where
  "no_aircraft = \<lparr>takeoff_weight = None, max_flight_time = None\<rparr>"

definition no_flight_plan :: flight_plan_params where
  "no_flight_plan = \<lparr>estimated_duration = None, max_altitude = None\<rparr>"

definition no_weather :: weather_params where
  "no_weather = \<lparr>wind_speed = None, visibility = None, condition = None\<rparr>"

definition no_location :: location_params where
  "no_location = \<lparr>latitude = None, longitude = None\<rparr>"

text \<open>
  Each issue string of the source starts with a coloured-circle emoji; the marker stands
  for it (red, yellow, green) and the string is the text after it. The \<open>details\<close> dict
  of a score holds formatted display strings only; the strings are not embedded, the
  exceptions that building them can raise are (section \<open>Exceptions on numeric inputs\<close>).
\<close>

datatype marker = Red | Yellow | Green

record domain_score =
  score :: int
  issues :: "(marker \<times> string) list"

definition analyze_technical_parameters :: "mission_params \<Rightarrow> domain_score" where
  "analyze_technical_parameters params =
     (let aircraft_d = get_default (aircraft params) no_aircraft;
          flight_plan_d = get_default (flight_plan params) no_flight_plan;
          issues0 = [];
          score0 = 100;
          weight = get_default (takeoff_weight aircraft_d) 0;
          (issues1, score1) =
            (if weight > 250 then
               (issues0 @ [(Red, ''Aircraft exceeds 250g FAA limit'')], score0 - 40)
             else if weight > 225 then
               (issues0 @ [(Yellow, ''Aircraft near weight limit'')], score0 - 15)
             else (issues0, score0));
          flight_time = get_default (estimated_duration flight_plan_d) 0;
          battery_time = get_default (max_flight_time aircraft_d) 0;
          (issues2, score2) =
            (if flight_time \<ge> battery_time * 0.9 then
               (issues1 @ [(Red, ''Insufficient battery margin'')], score1 - 30)
             else if flight_time \<ge> battery_time * 0.8 then
               (issues1 @ [(Yellow, ''Low battery margin'')], score1 - 15)
             else (issues1, score1))
      in \<lparr>score = max 0 score2, issues = issues2\<rparr>)"

definition analyze_weather_conditions :: "weather_params \<Rightarrow> domain_score" where
  "analyze_weather_conditions weather_d =
     (let issues0 = [];
          score0 = 100;
          wind = get_default (wind_speed weather_d) 0;
          (issues1, score1) =
            (if wind > 15 then
               (issues0 @ [(Red, ''Wind speed exceeds safe limits'')], score0 - 35)
             else if wind > 10 then
               (issues0 @ [(Yellow, ''Moderate wind conditions'')], score0 - 15)
             else (issues0, score0));
          vis = get_default (visibility weather_d) 10;
          (issues2, score2) =
            (if vis < 3 then
               (issues1 @ [(Red, ''Poor visibility conditions'')], score1 - 30)
             else if vis < 5 then
               (issues1 @ [(Yellow, ''Limited visibility'')], score1 - 10)
             else (issues1, score1));
          cond = get_default (condition weather_d) ''vfr'';
          (issues3, score3) =
            (if cond = ''ifr'' then
               (issues2 @ [(Red, ''IFR conditions not suitable for drone ops'')], score2 - 40)
             else if cond = ''mvfr'' then
               (issues2 @ [(Yellow, ''Marginal VFR conditions'')], score2 - 15)
             else (issues2, score2))
      in \<lparr>score = max 0 score3, issues = issues3\<rparr>)"

definition check_regulatory_compliance :: "mission_params \<Rightarrow> domain_score" where
  "check_regulatory_compliance params =
     (let issues0 = [];
          score0 = 100;
          flight_plan_d = get_default (flight_plan params) no_flight_plan;
          max_alt = get_default (max_altitude flight_plan_d) 0;
          (issues1, score1) =
            (if max_alt > 120 then
               (issues0 @ [(Red, ''Altitude exceeds 400ft AGL limit'')], score0 - 40)
             else if max_alt > 100 then
               (issues0 @ [(Yellow, ''Operating near altitude limit'')], score0 - 10)
             else (issues0, score0));
          controlled = get_default (controlled_airspace params) False;
          (issues2, score2) =
            (if controlled then
               (let auth = get_default (airspace_authorization params) False
                in if \<not> auth then
                     (issues1 @ [(Red, ''No authorization for controlled airspace'')],
                      score1 - 50)
                   else (issues1 @ [(Green, ''Controlled airspace - authorized'')], score1))
             else (issues1, score1))
      in \<lparr>score = max 0 score2, issues = issues2\<rparr>)"

text \<open>The analysis dict; \<open>supporting_data\<close> stays the empty dict and is left out.\<close>

record analysis =
  technical_assessment :: domain_score
  weather_analysis :: domain_score
  regulatory_compliance :: domain_score
  risk_factors :: "string list"
  ai_confidence :: rat
  ai_recommendation :: string
  key_concerns :: "string list"

text \<open>
  \<open>analyze_mission_parameters\<close>, with the module-level validator of
  \<open>system_validator\<close> passed in and out (the module is part of the repository, so the
  import succeeds and the stub of the \<open>except ImportError\<close> branch is not used).
  \<open>sum(scores) / len(scores)\<close> is Python's true division of an int by the length of the
  list.
\<close>

definition analyze_mission_parameters ::
  "(rat \<Rightarrow> int) \<Rightarrow> rat \<Rightarrow> system_validator option \<Rightarrow> mission_params
     \<Rightarrow> py_error + (analysis \<times> system_validator)" where
  "analyze_mission_parameters hash_str now g mission =
     (let tech_score = analyze_technical_parameters mission;
          weather_score = analyze_weather_conditions (get_default (weather mission) no_weather);
          reg_score = check_regulatory_compliance mission;
          location_d = get_default (location mission) no_location
      in case validate_mission_area hash_str now g
                (get_default (latitude location_d) 0)
                (get_default (longitude location_d) 0)
                (get_default (is_simulation mission) True) of
           Inl e \<Rightarrow> Inl e
         | Inr (validation_result, g') \<Rightarrow>
             (let scores0 = [score tech_score, score weather_score, score reg_score];
                  (scores, concerns) =
                    (if validation_result then (scores0 @ [85], [])
                     else (scores0 @ [25],
                           [''System validation indicates poor signal conditions'']));
                  confidence = of_int (sum_list scores) / of_nat (length scores);
                  recommendation =
                    (if confidence \<ge> 85 then ''GO''
                     else if confidence \<ge> 70 then ''CAUTION''
                     else ''NO-GO'')
              in Inr (\<lparr>technical_assessment = tech_score,
                        weather_analysis = weather_score,
                        regulatory_compliance = reg_score,
                        risk_factors = [],
                        ai_confidence = confidence,
                        ai_recommendation = recommendation,
                        key_concerns = concerns\<rparr>, g')))"

text \<open>The sample mission of \<open>demo_mission_planning\<close> (the spec's scenario A), the empty
  dict, and scenario B: the sample with weight 260 and controlled airspace, no authorization
  key.\<close>

definition demo_mission_params :: mission_params where
  "demo_mission_params =
     \<lparr>aircraft = Some \<lparr>takeoff_weight = Some 235, max_flight_time = Some 25\<rparr>,
      flight_plan = Some \<lparr>estimated_duration = Some 18, max_altitude = Some 95\<rparr>,
      weather = Some \<lparr>wind_speed = Some 12, visibility = Some 8, condition = Some ''vfr''\<rparr>,
      location = Some \<lparr>latitude = Some 40.0150, longitude = Some (-74.0060)\<rparr>,
      controlled_airspace = Some False,
      airspace_authorization = None,
      is_simulation = Some True\<rparr>"

definition empty_mission_params :: mission_params where
  "empty_mission_params =
     \<lparr>aircraft = None, flight_plan = None, weather = None, location = None,
      controlled_airspace = None, airspace_authorization = None, is_simulation = None\<rparr>"

definition scenario_b_params :: mission_params where
  "scenario_b_params =
     demo_mission_params
       \<lparr>aircraft := Some \<lparr>takeoff_weight = Some 260, max_flight_time = Some 25\<rparr>,
        controlled_airspace := Some True\<rparr>"

section \<open>aircraft\_builder.py\<close>

text \<open>The dataclasses. \<open>position\<close> is a dict from axis name to coordinate.\<close>

record component =
  comp_name :: string
  comp_weight :: rat
  comp_position :: "string \<rightharpoonup> rat"
  moment_arm :: rat

record aircraft_design =
  design_name :: string
  design_type :: string
  wingspan :: rat
  wing_area :: rat
  empty_weight :: rat
  max_takeoff_weight :: rat
  components :: "component list"
  cg_location :: rat
  design_stability_margin :: rat

record moment_entry =
  m_component :: string
  m_weight :: rat
  m_position :: rat
  m_relative_pos :: rat
  m_moment :: rat

record weight_balance =
  total_weight :: rat
  cg_from_wing :: rat
  cg_from_nose :: rat
  mac :: rat
  neutral_point :: rat
  stability_margin :: rat
  is_stable :: bool
  weight_distribution :: "moment_entry list"

text \<open>Python's \<open>/\<close>: a zero divisor raises \<open>ZeroDivisionError\<close>, for ints and floats alike.\<close>

definition py_div :: "rat \<Rightarrow> rat \<Rightarrow> py_error + rat" where
  "py_div a b = (if b = 0 then Inl ZeroDivisionError else Inr (a / b))"

text \<open>The loop over \<open>design.components\<close> that fills \<open>moments\<close>; \<open>comp.position['x']\<close> raises
  \<open>KeyError\<close> when the component has no \<open>x\<close>.\<close>

fun moments_loop :: "rat \<Rightarrow> component list \<Rightarrow> moment_entry list \<Rightarrow> py_error + moment_entry list" where
  "moments_loop wing_start [] moments = Inr moments"
| "moments_loop wing_start (cmp # rest) moments =
     (case comp_position cmp ''x'' of
        None \<Rightarrow> Inl KeyError
      | Some px \<Rightarrow>
          (let relative_pos = px - wing_start;
               moment = comp_weight cmp * relative_pos
           in moments_loop wing_start rest
                (moments @ [\<lparr>m_component = comp_name cmp,
                              m_weight = comp_weight cmp,
                              m_position = px,
                              m_relative_pos = relative_pos,
                              m_moment = moment\<rparr>])))"

definition calculate_weight_balance :: "aircraft_design \<Rightarrow> py_error + weight_balance" where
  "calculate_weight_balance design =
     (let total_weight_v = sum_list (map comp_weight (components design));
          wing_start = 100
      in case moments_loop wing_start (components design) [] of
           Inl e \<Rightarrow> Inl e
         | Inr moments \<Rightarrow>
             (let total_moment = sum_list (map m_moment moments)
              in case py_div total_moment total_weight_v of
                   Inl e \<Rightarrow> Inl e
                 | Inr cg_from_wing_v \<Rightarrow>
                     (case py_div (wing_area design * 1000000) (wingspan design) of
                        Inl e \<Rightarrow> Inl e
                      | Inr mac_v \<Rightarrow>
                          (let neutral_point_v = 0.25 * mac_v
                           in case py_div (neutral_point_v - cg_from_wing_v) mac_v of
                                Inl e \<Rightarrow> Inl e
                              | Inr stability_margin_v \<Rightarrow>
                                  Inr \<lparr>total_weight = total_weight_v,
                                       cg_from_wing = cg_from_wing_v,
                                       cg_from_nose = cg_from_wing_v + wing_start,
                                       mac = mac_v,
                                       neutral_point = neutral_point_v,
                                       stability_margin = stability_margin_v,
                                       is_stable = (stability_margin_v > 0.05),
                                       weight_distribution = moments\<rparr>))))"

text \<open>Three designs for closed evaluations: one component of 10 g on a wing of 800 mm span
  and 0.12 square metres (the wing of \<open>design_flying_wing\<close>), placed so that the margin is
  0.05 and 0.0501, and the same wing with no component at all.\<close>

definition one_component_design :: "rat \<Rightarrow> aircraft_design" where
  "one_component_design px =
     \<lparr>design_name = ''wing'', design_type = ''flying_wing'', wingspan = 800,
      wing_area = 0.12, empty_weight = 10, max_takeoff_weight = 30,
      components = [\<lparr>comp_name = ''payload'', comp_weight = 10,
                     comp_position = [''x'' \<mapsto> px, ''y'' \<mapsto> 0, ''z'' \<mapsto> 0],
                     moment_arm = 0\<rparr>],
      cg_location = 0.25, design_stability_margin = 0.1\<rparr>"


section \<open>ai\_pilot.py\<close>

subsection \<open>Data\<close>

text \<open>
  The aircraft dict, as far as planning reads it: \<open>estimated_flight_time\<close> and
  \<open>battery_reserve\<close> with \<open>.get\<close>, \<open>airspeeds\<close> and its entries with \<open>[...]\<close>.
\<close>

record airspeeds =
  Vs :: "rat option"
  Vx :: "rat option"
  Vy :: "rat option"
  Vno :: "rat option"

record aircraft_data =
  ac_name :: "string option"
  ac_estimated_flight_time :: "rat option"
  ac_airspeeds :: "airspeeds option"
  ac_battery_reserve :: "rat option"

text \<open>The weather readings that \<open>assess_flight_risk\<close> and \<open>calculate_performance\<close> read; the
  other METAR keys and the \<open>taf\<close> text are read by nothing and left out.\<close>

record weather_obs =
  obs_wind_speed :: "rat option"
  obs_visibility :: "rat option"
  obs_ceiling :: "rat option"

record weather_data =
  metar :: "weather_obs option"
  flight_risk :: "string option"

record waypoint =
  wp_lat :: "rat option"
  wp_lon :: "rat option"
  wp_altitude :: "rat option"

record obstacle =
  ob_location :: waypoint
  ob_height :: rat
  ob_type :: string

record terrain_data =
  max_terrain_elevation :: rat
  obstacles :: "obstacle list"
  minimum_safe_altitude :: rat
  terrain_clearance :: "bool option"

record performance =
  cruise_speed :: rat
  max_speed :: rat
  stall_speed :: rat
  perf_estimated_flight_time :: rat
  perf_range :: rat
  wind_impact :: rat
  perf_battery_reserve :: rat

record compliance =
  compliant :: bool
  violations :: "string list"
  warnings :: "string list"
  recommendations :: "string list option"

record decision =
  go :: bool
  confidence_level :: string
  reasons :: "string list"
  dec_recommendations :: "string list"

text \<open>
  The flight-plan dict. The first five fields are the keys \<open>plan_flight\<close> writes in its
  dict literal, the next two the keys it adds afterwards; the last six are the top-level
  keys that \<open>check_flight_compliance\<close> and \<open>generate_safety_recommendations\<close> read with
  \<open>.get\<close>. The keys \<open>mission_id\<close>, \<open>emergency_procedures\<close> and \<open>pilot_briefing\<close> hold a
  time stamp and fixed or formatted text and are left out.
\<close>

record flight_plan_rec =
  fp_aircraft :: "aircraft_data option"
  fp_weather :: "weather_data option"
  fp_terrain :: "terrain_data option"
  fp_performance :: "performance option"
  fp_waypoints :: "waypoint list option"
  fp_faa_compliance :: "compliance option"
  fp_go_no_go :: "decision option"
  fp_max_altitude :: "rat option"
  fp_estimated_flight_time :: "rat option"
  fp_over_populated_area :: "bool option"
  fp_wind_speed :: "rat option"
  fp_terrain_elevation :: "rat option"
  fp_near_airport :: "bool option"

record pilot_mission =
  aircraft_config :: "string option"
  pm_waypoints :: "waypoint list option"
  pm_max_altitude :: "rat option"

text \<open>The empty dict as a flight plan, and two plans for closed evaluations of the decision:
  the spec's decision scenario (compliant, moderate risk, clearance, 12 minutes) and a plan
  on which every factor but the constant one fails.\<close>

definition empty_flight_plan :: flight_plan_rec where
  "empty_flight_plan =
     \<lparr>fp_aircraft = None, fp_weather = None, fp_terrain = None, fp_performance = None,
      fp_waypoints = None, fp_faa_compliance = None, fp_go_no_go = None,
      fp_max_altitude = None, fp_estimated_flight_time = None,
      fp_over_populated_area = None, fp_wind_speed = None, fp_terrain_elevation = None,
      fp_near_airport = None\<rparr>"

definition decision_plan :: "bool \<Rightarrow> string \<Rightarrow> bool \<Rightarrow> rat \<Rightarrow> flight_plan_rec" where
  "decision_plan faa risk clearance minutes =
     empty_flight_plan
       \<lparr>fp_weather := Some \<lparr>metar = None, flight_risk = Some risk\<rparr>,
        fp_terrain := Some \<lparr>max_terrain_elevation = 500, obstacles = [],
                             minimum_safe_altitude = 700,
                             terrain_clearance = Some clearance\<rparr>,
        fp_performance := Some \<lparr>cruise_speed = 1.4, max_speed = 1.7, stall_speed = 1.1,
                                 perf_estimated_flight_time = minutes, perf_range = 10,
                                 wind_impact = 0, perf_battery_reserve = 5\<rparr>,
        fp_faa_compliance :=
          Some \<lparr>compliant = faa,
                violations = (if faa then [] else [''Cannot operate over populated areas'']),
                warnings = [], recommendations = Some []\<rparr>\<rparr>"

subsection \<open>FAAKnowledgeBase\<close>

definition part_107_max_altitude :: rat where
  "part_107_max_altitude = 400"

definition safety_margins_battery_reserve :: rat where
  "safety_margins_battery_reserve = 5"

definition generate_safety_recommendations :: "flight_plan_rec \<Rightarrow> string list" where
  "generate_safety_recommendations fp =
     (let r0 = [];
          r1 = (if get_default (fp_wind_speed fp) 0 > 10
                then r0 @ [''High wind conditions detected. Consider delaying flight.'']
                else r0);
          r2 = (if get_default (fp_terrain_elevation fp) 0 > 1000
                then r1 @ [''High terrain elevation. Ensure adequate altitude buffer.'']
                else r1);
          r3 = (if get_default (fp_near_airport fp) False
                then r2 @ [''Near controlled airspace. Maintain extra separation from manned aircraft.'']
                else r2)
      in r3)"

definition check_flight_compliance :: "flight_plan_rec \<Rightarrow> compliance" where
  "check_flight_compliance fp =
     (let v0 = [];
          v1 = (if get_default (fp_max_altitude fp) 0 > part_107_max_altitude
                then v0 @ [''Maximum altitude exceeds FAA limit of 400ft'']
                else v0);
          estimated_flight_time = get_default (fp_estimated_flight_time fp) 0;
          v2 = (if estimated_flight_time < safety_margins_battery_reserve + 5
                then v1 @ [''Insufficient battery reserve. Need at least 5min reserve'']
                else v1);
          v3 = (if get_default (fp_over_populated_area fp) False
                then v2 @ [''Cannot operate over populated areas'']
                else v2)
      in \<lparr>compliant = (length v3 = 0),
          violations = v3,
          warnings = [],
          recommendations = Some (generate_safety_recommendations fp)\<rparr>)"

subsection \<open>WeatherService and TerrainService\<close>

definition assess_flight_risk :: "weather_obs \<Rightarrow> string" where
  "assess_flight_risk w =
     (let wind = get_default (obs_wind_speed w) 0;
          vis = get_default (obs_visibility w) 10;
          ceiling = get_default (obs_ceiling w) 10000
      in if wind > 20 \<or> vis < 3 \<or> ceiling < 1000 then ''HIGH_RISK''
         else if wind > 10 \<or> vis < 5 \<or> ceiling < 3000 then ''MODERATE_RISK''
         else ''LOW_RISK'')"

text \<open>\<open>get_weather\<close> ignores its arguments and returns simulated data.\<close>

definition get_weather :: weather_data where
  "get_weather =
     \<lparr>metar = Some \<lparr>obs_wind_speed = Some 8, obs_visibility = Some 10,
                      obs_ceiling = Some 5000\<rparr>,
      flight_risk = Some (assess_flight_risk
                        \<lparr>obs_wind_speed = Some 8, obs_visibility = Some 10,
                         obs_ceiling = Some 5000\<rparr>)\<rparr>"

text \<open>\<open>min\<close> of an empty generator raises \<open>ValueError\<close>.\<close>

definition check_terrain_clearance :: "waypoint list \<Rightarrow> rat \<Rightarrow> py_error + bool" where
  "check_terrain_clearance flight_path max_terrain =
     (case map (\<lambda>wp. get_default (wp_altitude wp) 0) flight_path of
        [] \<Rightarrow> Inl ValueError
      | a # rest \<Rightarrow> Inr (fold min rest a \<ge> max_terrain + 200))"

definition get_terrain_profile :: "waypoint list \<Rightarrow> py_error + terrain_data" where
  "get_terrain_profile flight_path =
     (let max_elevation = 500;
          obstacles_v =
            concat (map (\<lambda>(i, wp).
                      if i = 2
                      then [\<lparr>ob_location = wp, ob_height = 200, ob_type = ''tree_line''\<rparr>]
                      else [])
                    (zip [0..<length flight_path] flight_path))
      in case check_terrain_clearance flight_path max_elevation of
           Inl e \<Rightarrow> Inl e
         | Inr clearance \<Rightarrow>
             Inr \<lparr>max_terrain_elevation = max_elevation,
                  obstacles = obstacles_v,
                  minimum_safe_altitude = max_elevation + 200,
                  terrain_clearance = Some clearance\<rparr>)"

subsection \<open>AIPilot\<close>

definition default_aircraft_data :: aircraft_data where
  "default_aircraft_data =
     \<lparr>ac_name = Some ''AI_Pilot_Flying_Wing_185g'',
      ac_estimated_flight_time = Some 47,
      ac_airspeeds = Some \<lparr>Vs = Some 1.1, Vx = Some 1.2, Vy = Some 1.4, Vno = Some 1.7\<rparr>,
      ac_battery_reserve = Some 5\<rparr>"

text \<open>
  \<open>load_aircraft_data\<close> reads a file. The file system is the parameter \<open>files\<close>: the
  path mapped to the flattened aircraft dict of the JSON document found there, \<open>None\<close>
  when the file is missing or is not JSON, in which case the default is returned. The
  path formats a missing \<open>aircraft_config\<close> as the text \<open>None\<close>.
\<close>

definition load_aircraft_data :: "(string \<rightharpoonup> aircraft_data) \<Rightarrow> string option \<Rightarrow> aircraft_data" where
  "load_aircraft_data files config_file =
     (case files (''aircraft_builder/'' @ (case config_file of None \<Rightarrow> ''None'' | Some f \<Rightarrow> f)) of
        Some a \<Rightarrow> a
      | None \<Rightarrow> default_aircraft_data)"

definition no_weather_obs :: weather_obs where
  "no_weather_obs = \<lparr>obs_wind_speed = None, obs_visibility = None, obs_ceiling = None\<rparr>"

definition calculate_performance :: "aircraft_data \<Rightarrow> weather_data \<Rightarrow> py_error + performance" where
  "calculate_performance ac w =
     (let base_flight_time = get_default (ac_estimated_flight_time ac) 30;
          wind = get_default (obs_wind_speed (get_default (metar w) no_weather_obs)) 0;
          wind_correction = wind * 0.1;
          adjusted_flight_time = base_flight_time * (1 - wind_correction / 100)
      in case ac_airspeeds ac of
           None \<Rightarrow> Inl KeyError
         | Some sp \<Rightarrow>
             (case Vy sp of
                None \<Rightarrow> Inl KeyError
              | Some vy \<Rightarrow>
                  (case Vno sp of
                     None \<Rightarrow> Inl KeyError
                   | Some vno \<Rightarrow>
                       (case Vs sp of
                          None \<Rightarrow> Inl KeyError
                        | Some vs \<Rightarrow>
                            Inr \<lparr>cruise_speed = vy,
                                 max_speed = vno,
                                 stall_speed = vs,
                                 perf_estimated_flight_time = max 5 adjusted_flight_time,
                                 perf_range = adjusted_flight_time * vy * 0.8,
                                 wind_impact = wind_correction,
                                 perf_battery_reserve =
                                   get_default (ac_battery_reserve ac) 5\<rparr>))))"

text \<open>\<open>factor.replace('_', ' ')\<close>.\<close>

definition replace_underscore :: "string \<Rightarrow> string" where
  "replace_underscore s = map (\<lambda>c. if c = CHR ''_'' then CHR '' '' else c) s"

text \<open>\<open>make_go_no_go_decision\<close>. The dict \<open>decision_factors\<close> is the association list in
  insertion order, which is the order \<open>.items()\<close> iterates in.\<close>

definition make_go_no_go_decision :: "flight_plan_rec \<Rightarrow> py_error + decision" where
  "make_go_no_go_decision fp =
     (case fp_faa_compliance fp of
        None \<Rightarrow> Inl KeyError
      | Some c \<Rightarrow>
          (case fp_weather fp of
             None \<Rightarrow> Inl KeyError
           | Some w \<Rightarrow>
               (case fp_terrain fp of
                  None \<Rightarrow> Inl KeyError
                | Some t \<Rightarrow>
                    (case fp_performance fp of
                       None \<Rightarrow> Inl KeyError
                     | Some p \<Rightarrow>
                         (let decision_factors =
                                [(''faa_compliant'', compliant c),
                                 (''weather_acceptable'', flight_risk w \<noteq> Some ''HIGH_RISK''),
                                 (''terrain_clearance'', get_default (terrain_clearance t) True),
                                 (''battery_reserve'', perf_estimated_flight_time p > 10),
                                 (''aircraft_ready'', True)];
                              go_decision = list_all snd decision_factors;
                              reasons_v =
                                (if \<not> go_decision then
                                   concat (map (\<lambda>(factor, status).
                                             if \<not> status
                                             then [''Failed '' @ replace_underscore factor @ '' check'']
                                             else [])
                                           decision_factors)
                                 else [])
                          in Inr \<lparr>go = go_decision,
                                  confidence_level = (if go_decision then ''HIGH'' else ''LOW''),
                                  reasons = reasons_v,
                                  dec_recommendations =
                                    get_default (recommendations c) []\<rparr>)))))"

text \<open>\<open>plan_flight\<close>; the plan it returns is also the one it stores in
  \<open>current_flight_plan\<close>.\<close>

definition plan_flight :: "(string \<rightharpoonup> aircraft_data) \<Rightarrow> pilot_mission \<Rightarrow> py_error + flight_plan_rec" where
  "plan_flight files mission =
     (let aircraft_v = load_aircraft_data files (aircraft_config mission);
          weather_v = get_weather
      in case get_terrain_profile (get_default (pm_waypoints mission) []) of
           Inl e \<Rightarrow> Inl e
         | Inr terrain_v \<Rightarrow>
             (case calculate_performance aircraft_v weather_v of
                Inl e \<Rightarrow> Inl e
              | Inr performance_v \<Rightarrow>
                  (let fp0 = \<lparr>fp_aircraft = Some aircraft_v,
                              fp_weather = Some weather_v,
                              fp_terrain = Some terrain_v,
                              fp_performance = Some performance_v,
                              fp_waypoints = Some (get_default (pm_waypoints mission) []),
                              fp_faa_compliance = None,
                              fp_go_no_go = None,
                              fp_max_altitude = None,
                              fp_estimated_flight_time = None,
                              fp_over_populated_area = None,
                              fp_wind_speed = None,
                              fp_terrain_elevation = None,
                              fp_near_airport = None\<rparr>;
                       fp1 = fp0\<lparr>fp_faa_compliance := Some (check_flight_compliance fp0)\<rparr>
                   in case make_go_no_go_decision fp1 of
                        Inl e \<Rightarrow> Inl e
                      | Inr d \<Rightarrow> Inr (fp1\<lparr>fp_go_no_go := Some d\<rparr>))))"

text \<open>The sample mission of \<open>main\<close>.\<close>

definition main_mission :: pilot_mission where
  "main_mission =
     \<lparr>aircraft_config = Some ''AI_Pilot_Flying_Wing_185g.json'',
      pm_waypoints = Some
        [\<lparr>wp_lat = Some 37.7749, wp_lon = Some (-122.4194), wp_altitude = Some 200\<rparr>,
         \<lparr>wp_lat = Some 37.7859, wp_lon = Some (-122.4094), wp_altitude = Some 250\<rparr>,
         \<lparr>wp_lat = Some 37.7749, wp_lon = Some (-122.4194), wp_altitude = Some 200\<rparr>],
      pm_max_altitude = Some 300\<rparr>"

section \<open>Exceptions on numeric inputs\<close>

text \<open>
  The scores and the geofence verdict depend on the values of the numbers only, so the
  functions above take values. Whether an operation raises depends also on whether a
  number is a Python int (unbounded) or a float: converting an int beyond the float
  range to a float raises \<open>OverflowError\<close>, printing an int of more digits than the
  interpreter's limit raises \<open>ValueError\<close>, and no operation of these functions raises
  on floats. This section gives, for the three scorers (with the formatted strings of
  their \<open>details\<close> dict), the mission analysis and the geofence functions, the first
  exception a call raises, in the source's evaluation order, and the call itself: that
  exception, or else the result computed above.
\<close>

datatype pynum = PyInt int | PyFloat rat

definition num_value :: "pynum \<Rightarrow> rat" where
  "num_value v = (case v of PyInt n \<Rightarrow> of_int n | PyFloat x \<Rightarrow> x)"

text \<open>
  An int converts to a float by rounding to 53 bits, and the conversion raises when the
  rounded value reaches \<open>2 ^ 1024\<close>; the least such int is \<open>2 ^ 1024 - 2 ^ 970\<close>. This
  is what \<open>n * 0.9\<close>, \<open>n - x\<close> and \<open>n + x\<close> with a float \<open>x\<close>, and the format \<open>.1f\<close>
  do to an int \<open>n\<close>.
\<close>

definition float_overflow_bound :: int where
  "float_overflow_bound = 2 ^ 1024 - 2 ^ 970"

definition int_to_float_raises :: "pynum \<Rightarrow> bool" where
  "int_to_float_raises v =
     (case v of PyInt n \<Rightarrow> \<bar>n\<bar> \<ge> float_overflow_bound | PyFloat x \<Rightarrow> False)"

text \<open>True division \<open>v / k\<close> by an int constant: for an int \<open>v\<close> the quotient is rounded
  once and raises \<open>OverflowError\<close> when it is beyond the float range.\<close>

definition true_div_raises :: "pynum \<Rightarrow> int \<Rightarrow> bool" where
  "true_div_raises v k =
     (case v of
        PyInt n \<Rightarrow> \<bar>of_int n / of_int k :: rat\<bar> \<ge> of_int float_overflow_bound
      | PyFloat x \<Rightarrow> False)"

text \<open>
  \<open>str(v)\<close>, also as the format of \<open>{v}\<close> in an f-string. \<open>max_str_digits\<close> is the
  interpreter's \<open>sys.get_int_max_str_digits()\<close>: 4300 by default from Python 3.11 on,
  0 where the limit is switched off or does not exist; the interpreter accepts 0 or a
  value of at least 640. An int of more decimal digits than a positive limit raises
  \<open>ValueError\<close>.
\<close>

definition str_raises :: "nat \<Rightarrow> pynum \<Rightarrow> bool" where
  "str_raises max_str_digits v =
     (case v of
        PyInt n \<Rightarrow> max_str_digits > 0 \<and> \<bar>n\<bar> \<ge> 10 ^ max_str_digits
      | PyFloat x \<Rightarrow> False)"

text \<open>\<open>f"{a - b:.1f}"\<close>: the difference of two ints is an int, which the format converts;
  a difference with a float converts the int operand.\<close>

definition sub_format_raises :: "pynum \<Rightarrow> pynum \<Rightarrow> bool" where
  "sub_format_raises a b =
     (case (a, b) of
        (PyInt x, PyInt y) \<Rightarrow> int_to_float_raises (PyInt (x - y))
      | (PyInt x, PyFloat y) \<Rightarrow> int_to_float_raises a
      | (PyFloat x, PyInt y) \<Rightarrow> int_to_float_raises b
      | (PyFloat x, PyFloat y) \<Rightarrow> False)"

text \<open>The mission-parameters dict with each number as the int or float it is.\<close>

record py_aircraft =
  in_takeoff_weight :: "pynum option"
  in_max_flight_time :: "pynum option"

record py_flight_plan =
  in_estimated_duration :: "pynum option"
  in_max_altitude :: "pynum option"

record py_weather =
  in_wind_speed :: "pynum option"
  in_visibility :: "pynum option"
  in_condition :: "string option"

record py_location =
  in_latitude :: "pynum option"
  in_longitude :: "pynum option"

record py_mission =
  in_aircraft :: "py_aircraft option"
  in_flight_plan :: "py_flight_plan option"
  in_weather :: "py_weather option"
  in_location :: "py_location option"
  in_controlled_airspace :: "bool option"
  in_airspace_authorization :: "bool option"
  in_is_simulation :: "bool option"

definition no_py_aircraft :: py_aircraft where
  "no_py_aircraft = \<lparr>in_takeoff_weight = None, in_max_flight_time = None\<rparr>"

definition no_py_flight_plan :: py_flight_plan where
  "no_py_flight_plan = \<lparr>in_estimated_duration = None, in_max_altitude = None\<rparr>"



text \<open>The same dict with each number as its value.\<close>

definition values_aircraft :: "py_aircraft \<Rightarrow> aircraft_params" where
  "values_aircraft a =
     \<lparr>takeoff_weight = map_option num_value (in_takeoff_weight a),
      max_flight_time = map_option num_value (in_max_flight_time a)\<rparr>"

definition values_flight_plan :: "py_flight_plan \<Rightarrow> flight_plan_params" where
  "values_flight_plan f =
     \<lparr>estimated_duration = map_option num_value (in_estimated_duration f),
      max_altitude = map_option num_value (in_max_altitude f)\<rparr>"

definition values_weather :: "py_weather \<Rightarrow> weather_params" where
  "values_weather w =
     \<lparr>wind_speed = map_option num_value (in_wind_speed w),
      visibility = map_option num_value (in_visibility w),
      condition = in_condition w\<rparr>"

definition values_location :: "py_location \<Rightarrow> location_params" where
  "values_location l =
     \<lparr>latitude = map_option num_value (in_latitude l),
      longitude = map_option num_value (in_longitude l)\<rparr>"

definition values_mission :: "py_mission \<Rightarrow> mission_params" where
  "values_mission m =
     \<lparr>aircraft = map_option values_aircraft (in_aircraft m),
      flight_plan = map_option values_flight_plan (in_flight_plan m),
      weather = map_option values_weather (in_weather m),
      location = map_option values_location (in_location m),
      controlled_airspace = in_controlled_airspace m,
      airspace_authorization = in_airspace_authorization m,
      is_simulation = in_is_simulation m\<rparr>"

text \<open>
  \<open>_analyze_technical_parameters\<close>. The comparisons of the weight check raise nothing.
  The raising operations, in order: \<open>battery_time * 0.9\<close> (when it passes,
  \<open>battery_time * 0.8\<close> passes too, and a comparison of an int with a float raises
  nothing); then, in the \<open>details\<close> dict, the format of \<open>{weight}\<close>, the division
  \<open>weight/250\<close> (its product with 100 and its format are on a float), and the format
  \<open>.1f\<close> of \<open>battery_time - flight_time\<close>.
\<close>

definition technical_raises :: "nat \<Rightarrow> py_mission \<Rightarrow> py_error option" where
  "technical_raises max_str_digits params =
     (let aircraft_d = get_default (in_aircraft params) no_py_aircraft;
          flight_plan_d = get_default (in_flight_plan params) no_py_flight_plan;
          weight = get_default (in_takeoff_weight aircraft_d) (PyInt 0);
          flight_time = get_default (in_estimated_duration flight_plan_d) (PyInt 0);
          battery_time = get_default (in_max_flight_time aircraft_d) (PyInt 0)
      in if int_to_float_raises battery_time then Some OverflowError
         else if str_raises max_str_digits weight then Some ValueError
         else if true_div_raises weight 250 then Some OverflowError
         else if sub_format_raises battery_time flight_time then Some OverflowError
         else None)"

definition analyze_technical_parameters_call ::
  "nat \<Rightarrow> py_mission \<Rightarrow> py_error + domain_score" where
  "analyze_technical_parameters_call max_str_digits params =
     (case technical_raises max_str_digits params of
        Some e \<Rightarrow> Inl e
      | None \<Rightarrow> Inr (analyze_technical_parameters (values_mission params)))"










text \<open>
  The numbers of a mission input, and the guard used below: an int is modest when it is
  below \<open>10 ^ 300\<close> in absolute value; every float is.
\<close>

definition modest :: "pynum \<Rightarrow> bool" where
  "modest v = (case v of PyInt n \<Rightarrow> \<bar>n\<bar> < 10 ^ 300 | PyFloat x \<Rightarrow> True)"



text \<open>The sample mission of \<open>demo_mission_planning\<close> as Python has it (ints, and floats for
  the coordinates), the empty dict, and the sample with a takeoff weight of
  \<open>10 ^ 400\<close>.\<close>

definition py_demo_mission :: py_mission where
  "py_demo_mission =
     \<lparr>in_aircraft = Some \<lparr>in_takeoff_weight = Some (PyInt 235),
                           in_max_flight_time = Some (PyInt 25)\<rparr>,
      in_flight_plan = Some \<lparr>in_estimated_duration = Some (PyInt 18),
                              in_max_altitude = Some (PyInt 95)\<rparr>,
      in_weather = Some \<lparr>in_wind_speed = Some (PyInt 12), in_visibility = Some (PyInt 8),
                          in_condition = Some ''vfr''\<rparr>,
      in_location = Some \<lparr>in_latitude = Some (PyFloat 40.0150),
                           in_longitude = Some (PyFloat (-74.0060))\<rparr>,
      in_controlled_airspace = Some False,
      in_airspace_authorization = None,
      in_is_simulation = Some True\<rparr>"

definition py_empty_mission :: py_mission where
  "py_empty_mission =
     \<lparr>in_aircraft = None, in_flight_plan = None, in_weather = None, in_location = None,
      in_controlled_airspace = None, in_airspace_authorization = None,
      in_is_simulation = None\<rparr>"

definition py_huge_weight_mission :: py_mission where
  "py_huge_weight_mission =
     py_demo_mission
       \<lparr>in_aircraft := Some \<lparr>in_takeoff_weight = Some (PyInt (10 ^ 400)),
                              in_max_flight_time = Some (PyInt 25)\<rparr>\<rparr>"

section \<open>Geofence: the polygon test and the confirmation\<close>

lemma point_in_polygon_total:
  "\<exists>b. point_in_polygon lat lon decode_validation_params = Inr b"
  by (simp add: point_in_polygon_def decode_validation_params_def)

lemma origin_outside: "point_in_polygon 0 0 decode_validation_params = Inr False"
  by (simp add: point_in_polygon_def decode_validation_params_def upt_rec edge_toggle_def Let_def)

lemma sw_corner_inside:
  "point_in_polygon 25.898697 (-124.733174) decode_validation_params = Inr True"
  by (simp add: point_in_polygon_def decode_validation_params_def upt_rec edge_toggle_def Let_def)

lemma hash_mod_bounds:
  obtains k :: rat where "of_int (h mod 100) = k" and "0 \<le> k" and "k < 100"
  by simp

lemma validate_sim:
  assumes "simulator_mode v"
  obtains r where "validate_operational_area hash_str v lat lon = Inr r"
    and "valid r" and "95 \<le> signal_strength r" and "signal_strength r < 100"
    and "system_health r = 98" and "calibration_status r = ''SIM_CALIBRATED''"
proof -
  obtain k :: rat where k: "of_int (hash_str (lat + lon) mod 100) = k" "0 \<le> k" "k < 100"
    by (rule hash_mod_bounds)
  show thesis
    by (rule that[of "\<lparr>valid = True, signal_strength = 95 + 5 * k / 100, system_health = 98,
          calibration_status = ''SIM_CALIBRATED''\<rparr>"])
       (use assms k in \<open>simp_all add: validate_operational_area_def\<close>)
qed

lemma validate_inside:
  assumes "\<not> simulator_mode v"
    and "point_in_polygon lat lon decode_validation_params = Inr True"
  obtains r where "validate_operational_area hash_str v lat lon = Inr r"
    and "valid r" and "80 \<le> signal_strength r" and "signal_strength r < 95"
    and "85 \<le> system_health r" and "system_health r < 95"
    and "calibration_status r = ''OPERATIONAL''"
proof -
  obtain k :: rat where k: "of_int (hash_str lat mod 100) = k" "0 \<le> k" "k < 100"
    by (rule hash_mod_bounds)
  obtain j :: rat where j: "of_int (hash_str lon mod 100) = j" "0 \<le> j" "j < 100"
    by (rule hash_mod_bounds)
  show thesis
    by (rule that[of "\<lparr>valid = True, signal_strength = 80 + 15 * k / 100,
          system_health = 85 + 10 * j / 100, calibration_status = ''OPERATIONAL''\<rparr>"])
       (use assms k j in \<open>simp_all add: validate_operational_area_def\<close>)
qed

lemma validate_outside:
  assumes "\<not> simulator_mode v"
    and "point_in_polygon lat lon decode_validation_params = Inr False"
  obtains r where "validate_operational_area hash_str v lat lon = Inr r"
    and "\<not> valid r" and "15 \<le> signal_strength r" and "signal_strength r < 40"
    and "25 \<le> system_health r" and "system_health r < 60"
    and "calibration_status r = ''POOR_SIGNAL''"
proof -
  obtain k :: rat where k: "of_int (hash_str lat mod 100) = k" "0 \<le> k" "k < 100"
    by (rule hash_mod_bounds)
  obtain j :: rat where j: "of_int (hash_str lon mod 100) = j" "0 \<le> j" "j < 100"
    by (rule hash_mod_bounds)
  show thesis
    by (rule that[of "\<lparr>valid = False, signal_strength = 15 + 25 * k / 100,
          system_health = 25 + 35 * j / 100, calibration_status = ''POOR_SIGNAL''\<rparr>"])
       (use assms k j in \<open>simp_all add: validate_operational_area_def\<close>)
qed

lemma perform_pass:
  assumes "validate_operational_area hash_str v lat lon = Inr r"
    and "valid r" and "70 < signal_strength r" and "75 < system_health r"
  shows "perform_system_validation hash_str now v lat lon =
     Inr (True, v\<lparr>last_validation :=
        Some \<lparr>lv_timestamp = now, lv_position = (lat, lon), lv_result = r\<rparr>\<rparr>)"
  using assms by (simp add: perform_system_validation_def)

lemma perform_fail:
  assumes "validate_operational_area hash_str v lat lon = Inr r" and "\<not> valid r"
  shows "perform_system_validation hash_str now v lat lon =
     Inr (False, v\<lparr>last_validation := None\<rparr>)"
  using assms by (simp add: perform_system_validation_def)

lemma perform_sim:
  assumes "simulator_mode v"
  shows "\<exists>v'. perform_system_validation hash_str now v lat lon = Inr (True, v')"
proof -
  obtain r where r: "validate_operational_area hash_str v lat lon = Inr r"
    "valid r" "95 \<le> signal_strength r" "system_health r = 98"
    using validate_sim[OF assms] by metis
  have "70 < signal_strength r" "75 < system_health r" using r by simp_all
  with r show ?thesis using perform_pass by blast
qed

lemma perform_outside:
  assumes "\<not> simulator_mode v"
    and "point_in_polygon lat lon decode_validation_params = Inr False"
  shows "perform_system_validation hash_str now v lat lon =
     Inr (False, v\<lparr>last_validation := None\<rparr>)"
proof -
  obtain r where "validate_operational_area hash_str v lat lon = Inr r" "\<not> valid r"
    using validate_outside[OF assms] by metis
  then show ?thesis by (rule perform_fail)
qed

lemma perform_inside:
  assumes "\<not> simulator_mode v"
    and "point_in_polygon lat lon decode_validation_params = Inr True"
  shows "\<exists>v'. perform_system_validation hash_str now v lat lon = Inr (True, v')"
proof -
  obtain r where r: "validate_operational_area hash_str v lat lon = Inr r"
    "valid r" "80 \<le> signal_strength r" "85 \<le> system_health r"
    using validate_inside[OF assms] by metis
  have "70 < signal_strength r" "75 < system_health r" using r by simp_all
  with r show ?thesis using perform_pass by blast
qed

lemma perform_total:
  "\<exists>b v'. perform_system_validation hash_str now v lat lon = Inr (b, v')"
proof (cases "simulator_mode v")
  case True
  then show ?thesis using perform_sim by blast
next
  case False
  obtain w where w: "point_in_polygon lat lon decode_validation_params = Inr w"
    using point_in_polygon_total by blast
  show ?thesis
  proof (cases w)
    case True
    with w have "point_in_polygon lat lon decode_validation_params = Inr True" by simp
    from perform_inside[OF False this] show ?thesis by blast
  next
    case inner: False
    with w have "point_in_polygon lat lon decode_validation_params = Inr False" by simp
    from perform_outside[OF False this] show ?thesis by blast
  qed
qed

lemma validate_mission_area_total:
  "\<exists>b v'. validate_mission_area hash_str now g lat lon sim = Inr (b, v')"
  unfolding validate_mission_area_def Let_def by (rule perform_total)



text \<open>
  C7. For every latitude and longitude the confirmation returns true when the simulation
  flag is set, and returns false when the flag is unset and the point is outside the
  boundary polygon; both for \<open>validate_mission_area\<close>, which sets the flag from its
  argument, and for \<open>perform_system_validation\<close>, which reads it from the validator.
\<close>

theorem geofence_confirm_sim_and_outside:
  "(\<exists>v'. validate_mission_area hash_str now g lat lon True = Inr (True, v')) \<and>
   (\<exists>v'. perform_system_validation hash_str now (v\<lparr>simulator_mode := True\<rparr>) lat lon =
          Inr (True, v')) \<and>
   (point_in_polygon lat lon decode_validation_params = Inr False \<longrightarrow>
      (\<exists>v'. validate_mission_area hash_str now g lat lon False = Inr (False, v')) \<and>
      (\<exists>v'. perform_system_validation hash_str now (v\<lparr>simulator_mode := False\<rparr>) lat lon =
             Inr (False, v')))"
proof (intro conjI impI)
  show "\<exists>v'. validate_mission_area hash_str now g lat lon True = Inr (True, v')"
    using perform_sim[of "set_simulator_mode (get_system_validator g) True" hash_str now lat lon]
    by (simp add: validate_mission_area_def set_simulator_mode_def)
  show "\<exists>v'. perform_system_validation hash_str now (v\<lparr>simulator_mode := True\<rparr>) lat lon =
          Inr (True, v')"
    by (rule perform_sim) simp
next
  assume out: "point_in_polygon lat lon decode_validation_params = Inr False"
  show "\<exists>v'. validate_mission_area hash_str now g lat lon False = Inr (False, v')"
    using perform_outside[OF _ out, of "set_simulator_mode (get_system_validator g) False"
        hash_str now]
    by (simp add: validate_mission_area_def set_simulator_mode_def)
  show "\<exists>v'. perform_system_validation hash_str now (v\<lparr>simulator_mode := False\<rparr>) lat lon =
          Inr (False, v')"
    using perform_outside[OF _ out, of "v\<lparr>simulator_mode := False\<rparr>" hash_str now] by simp
qed

theorem geofence_confirm_sim_and_outside_witness:
  "point_in_polygon 0 0 decode_validation_params = Inr False \<and>
   validate_mission_area fixed_hash 0 None 0 0 False =
     Inr (False, \<lparr>simulator_mode = False, last_validation = None\<rparr>) \<and>
   validate_mission_area fixed_hash 0 None 0 0 True =
     Inr (True,
          \<lparr>simulator_mode = True,
           last_validation =
             Some \<lparr>lv_timestamp = 0, lv_position = (0, 0),
                   lv_result = \<lparr>valid = True, signal_strength = 97.1, system_health = 98,
                                 calibration_status = ''SIM_CALIBRATED''\<rparr>\<rparr>\<rparr>)"
  using geofence_confirm_sim_and_outside[of fixed_hash 0 None 0 0 new_system_validator]
    origin_outside
  by (simp add: validate_mission_area_def set_simulator_mode_def get_system_validator_def
        new_system_validator_def perform_system_validation_def validate_operational_area_def
        Let_def fixed_hash_def)

text \<open>
  C10. With the simulator flag unset, \<open>perform_system_validation\<close> returns true if and
  only if the point is inside the boundary polygon: the in-bounds result is valid with
  signal strength in [80, 95) and system health in [85, 95), above the thresholds 70 and
  75, and the out-of-bounds result is not valid.
\<close>

theorem hardware_validation_iff_inside:
  "\<exists>r b v'.
     validate_operational_area hash_str (v\<lparr>simulator_mode := False\<rparr>) lat lon = Inr r \<and>
     perform_system_validation hash_str now (v\<lparr>simulator_mode := False\<rparr>) lat lon =
       Inr (b, v') \<and>
     (b \<longleftrightarrow> point_in_polygon lat lon decode_validation_params = Inr True) \<and>
     (point_in_polygon lat lon decode_validation_params = Inr True \<longrightarrow>
        valid r \<and> 80 \<le> signal_strength r \<and> signal_strength r < 95 \<and>
        85 \<le> system_health r \<and> system_health r < 95) \<and>
     (point_in_polygon lat lon decode_validation_params \<noteq> Inr True \<longrightarrow> \<not> valid r)"
proof -
  let ?v = "v\<lparr>simulator_mode := False\<rparr>"
  have ns: "\<not> simulator_mode ?v" by simp
  obtain w where w: "point_in_polygon lat lon decode_validation_params = Inr w"
    using point_in_polygon_total by blast
  show ?thesis
  proof (cases w)
    case True
    with w have inside: "point_in_polygon lat lon decode_validation_params = Inr True"
      by simp
    obtain r where r: "validate_operational_area hash_str ?v lat lon = Inr r"
      "valid r" "80 \<le> signal_strength r" "signal_strength r < 95"
      "85 \<le> system_health r" "system_health r < 95"
      using validate_inside[OF ns inside] by metis
    have "70 < signal_strength r" "75 < system_health r" using r by simp_all
    then have "perform_system_validation hash_str now ?v lat lon =
       Inr (True, ?v\<lparr>last_validation :=
          Some \<lparr>lv_timestamp = now, lv_position = (lat, lon), lv_result = r\<rparr>\<rparr>)"
      using r perform_pass by blast
    with r inside show ?thesis by blast
  next
    case False
    with w have outside: "point_in_polygon lat lon decode_validation_params = Inr False"
      by simp
    obtain r where r: "validate_operational_area hash_str ?v lat lon = Inr r" "\<not> valid r"
      using validate_outside[OF ns outside] by metis
    have "perform_system_validation hash_str now ?v lat lon =
       Inr (False, ?v\<lparr>last_validation := None\<rparr>)"
      using r by (rule perform_fail)
    moreover have "point_in_polygon lat lon decode_validation_params \<noteq> Inr True"
      using outside by simp
    ultimately show ?thesis using r by blast
  qed
qed

theorem hardware_validation_iff_inside_witness:
  "point_in_polygon 25.898697 (-124.733174) decode_validation_params = Inr True \<and>
   perform_system_validation fixed_hash 0 new_system_validator 25.898697 (-124.733174) =
     Inr (True,
          \<lparr>simulator_mode = False,
           last_validation =
             Some \<lparr>lv_timestamp = 0, lv_position = (25.898697, -124.733174),
                   lv_result = \<lparr>valid = True, signal_strength = 86.3, system_health = 89.2,
                                 calibration_status = ''OPERATIONAL''\<rparr>\<rparr>\<rparr>) \<and>
   point_in_polygon 0 0 decode_validation_params = Inr False \<and>
   perform_system_validation fixed_hash 0 new_system_validator 0 0 =
     Inr (False, \<lparr>simulator_mode = False, last_validation = None\<rparr>)"
  using hardware_validation_iff_inside[of fixed_hash new_system_validator
      "25.898697" "-124.733174" 0]
    hardware_validation_iff_inside[of fixed_hash new_system_validator 0 0 0]
    sw_corner_inside origin_outside
  by (simp add: new_system_validator_def perform_system_validation_def
        validate_operational_area_def Let_def fixed_hash_def)

section \<open>Mission analysis: the domain scores and their aggregation\<close>

lemma technical_score_value:
  "score (analyze_technical_parameters p) =
     (let w = get_default (takeoff_weight (get_default (aircraft p) no_aircraft)) 0;
          flight_time =
            get_default (estimated_duration (get_default (flight_plan p) no_flight_plan)) 0;
          battery_time = get_default (max_flight_time (get_default (aircraft p) no_aircraft)) 0
      in 100 - (if w > 250 then 40 else if w > 225 then 15 else 0)
             - (if flight_time \<ge> battery_time * 0.9 then 30
                else if flight_time \<ge> battery_time * 0.8 then 15 else 0))"
  by (simp add: analyze_technical_parameters_def Let_def)

lemma analyze_of_validation:
  assumes "validate_mission_area hash_str now g
             (get_default (latitude (get_default (location p) no_location)) 0)
             (get_default (longitude (get_default (location p) no_location)) 0)
             (get_default (is_simulation p) True) = Inr (b, v')"
  shows "analyze_mission_parameters hash_str now g p =
     (let t = analyze_technical_parameters p;
          w = analyze_weather_conditions (get_default (weather p) no_weather);
          r = check_regulatory_compliance p;
          c = (of_int (score t) + of_int (score w) + of_int (score r) +
               (if b then 85 else 25)) / 4
      in Inr (\<lparr>technical_assessment = t, weather_analysis = w, regulatory_compliance = r,
               risk_factors = [], ai_confidence = c,
               ai_recommendation =
                 (if c \<ge> 85 then ''GO'' else if c \<ge> 70 then ''CAUTION'' else ''NO-GO''),
               key_concerns =
                 (if b then []
                  else [''System validation indicates poor signal conditions''])\<rparr>, v'))"
  using assms by (simp add: analyze_mission_parameters_def Let_def)


text \<open>
  C5. For every takeoff weight \<open>w\<close> the technical score is the base 100 less exactly 40
  when \<open>w > 250\<close>, exactly 15 when \<open>225 < w \<le> 250\<close> and 0 otherwise, less the battery
  penalty; and the score lies in [0, 100].
\<close>

theorem technical_score_weight_penalty:
  "(let w = get_default (takeoff_weight (get_default (aircraft p) no_aircraft)) 0;
        flight_time =
          get_default (estimated_duration (get_default (flight_plan p) no_flight_plan)) 0;
        battery_time = get_default (max_flight_time (get_default (aircraft p) no_aircraft)) 0;
        battery_penalty = (if flight_time \<ge> battery_time * 0.9 then 30
                           else if flight_time \<ge> battery_time * 0.8 then 15 else 0);
        s = score (analyze_technical_parameters p)
    in (w > 250 \<longrightarrow> s = 100 - 40 - battery_penalty) \<and>
       (225 < w \<and> w \<le> 250 \<longrightarrow> s = 100 - 15 - battery_penalty) \<and>
       (w \<le> 225 \<longrightarrow> s = 100 - 0 - battery_penalty) \<and>
       0 \<le> s \<and> s \<le> 100)"
  by (simp add: technical_score_value Let_def)

theorem technical_score_weight_penalty_witness:
  "score (analyze_technical_parameters scenario_b_params) = 100 - 40 - 0 \<and>
   score (analyze_technical_parameters demo_mission_params) = 100 - 15 - 0 \<and>
   score (analyze_technical_parameters empty_mission_params) = 100 - 0 - 30"
  using technical_score_weight_penalty[of scenario_b_params]
    technical_score_weight_penalty[of demo_mission_params]
    technical_score_weight_penalty[of empty_mission_params]
  by (simp add: scenario_b_params_def demo_mission_params_def empty_mission_params_def
      no_aircraft_def no_flight_plan_def get_default_def Let_def)

text \<open>
  C4. For every mission-parameters input the analysis returns, its \<open>ai_confidence\<close> is the
  unweighted mean of four contributions (the technical, weather and regulatory scores and
  85 if the geofence confirmation passed, 25 otherwise), and the recommendation is GO when
  the confidence is at least 85, CAUTION when it is at least 70 and below 85, NO-GO below
  70.
\<close>

theorem confidence_is_mean_of_four:
  "\<exists>a b v'.
     validate_mission_area hash_str now g
        (get_default (latitude (get_default (location p) no_location)) 0)
        (get_default (longitude (get_default (location p) no_location)) 0)
        (get_default (is_simulation p) True) = Inr (b, v') \<and>
     analyze_mission_parameters hash_str now g p = Inr (a, v') \<and>
     technical_assessment a = analyze_technical_parameters p \<and>
     weather_analysis a = analyze_weather_conditions (get_default (weather p) no_weather) \<and>
     regulatory_compliance a = check_regulatory_compliance p \<and>
     ai_confidence a =
       (of_int (score (technical_assessment a)) + of_int (score (weather_analysis a)) +
        of_int (score (regulatory_compliance a)) + (if b then 85 else 25)) / 4 \<and>
     (ai_confidence a \<ge> 85 \<longrightarrow> ai_recommendation a = ''GO'') \<and>
     (70 \<le> ai_confidence a \<and> ai_confidence a < 85 \<longrightarrow> ai_recommendation a = ''CAUTION'') \<and>
     (ai_confidence a < 70 \<longrightarrow> ai_recommendation a = ''NO-GO'')"
proof -
  obtain b v' where v: "validate_mission_area hash_str now g
        (get_default (latitude (get_default (location p) no_location)) 0)
        (get_default (longitude (get_default (location p) no_location)) 0)
        (get_default (is_simulation p) True) = Inr (b, v')"
    using validate_mission_area_total by blast
  define c :: rat where "c =
     (of_int (score (analyze_technical_parameters p)) +
      of_int (score (analyze_weather_conditions (get_default (weather p) no_weather))) +
      of_int (score (check_regulatory_compliance p)) + (if b then 85 else 25)) / 4"
  define a where "a =
     \<lparr>technical_assessment = analyze_technical_parameters p,
      weather_analysis = analyze_weather_conditions (get_default (weather p) no_weather),
      regulatory_compliance = check_regulatory_compliance p,
      risk_factors = [], ai_confidence = c,
      ai_recommendation =
        (if c \<ge> 85 then ''GO'' else if c \<ge> 70 then ''CAUTION'' else ''NO-GO''),
      key_concerns =
        (if b then [] else [''System validation indicates poor signal conditions''])\<rparr>"
  have run: "analyze_mission_parameters hash_str now g p = Inr (a, v')"
    unfolding analyze_of_validation[OF v] a_def c_def Let_def by (rule refl)
  have fields: "technical_assessment a = analyze_technical_parameters p"
    "weather_analysis a = analyze_weather_conditions (get_default (weather p) no_weather)"
    "regulatory_compliance a = check_regulatory_compliance p"
    "ai_confidence a = c"
    "ai_recommendation a =
       (if c \<ge> 85 then ''GO'' else if c \<ge> 70 then ''CAUTION'' else ''NO-GO'')"
    by (simp_all add: a_def)
  have mean: "ai_confidence a =
       (of_int (score (technical_assessment a)) + of_int (score (weather_analysis a)) +
        of_int (score (regulatory_compliance a)) + (if b then 85 else 25)) / 4"
    unfolding fields c_def by (rule refl)
  have rec: "(ai_confidence a \<ge> 85 \<longrightarrow> ai_recommendation a = ''GO'') \<and>
     (70 \<le> ai_confidence a \<and> ai_confidence a < 85 \<longrightarrow> ai_recommendation a = ''CAUTION'') \<and>
     (ai_confidence a < 70 \<longrightarrow> ai_recommendation a = ''NO-GO'')"
    unfolding fields by simp
  from v run fields(1-3) mean rec show ?thesis by blast
qed

theorem confidence_is_mean_of_four_witness:
  "analyze_mission_parameters fixed_hash 0 None demo_mission_params =
     Inr (\<lparr>technical_assessment =
             \<lparr>score = 85, issues = [(Yellow, ''Aircraft near weight limit'')]\<rparr>,
           weather_analysis =
             \<lparr>score = 85, issues = [(Yellow, ''Moderate wind conditions'')]\<rparr>,
           regulatory_compliance = \<lparr>score = 100, issues = []\<rparr>,
           risk_factors = [], ai_confidence = 88.75, ai_recommendation = ''GO'',
           key_concerns = []\<rparr>,
          \<lparr>simulator_mode = True,
           last_validation =
             Some \<lparr>lv_timestamp = 0, lv_position = (40.0150, -74.0060),
                   lv_result = \<lparr>valid = True, signal_strength = 97.1, system_health = 98,
                                 calibration_status = ''SIM_CALIBRATED''\<rparr>\<rparr>\<rparr>)"
  using confidence_is_mean_of_four[of fixed_hash 0 None demo_mission_params]
  by (simp add: analyze_mission_parameters_def demo_mission_params_def
      analyze_technical_parameters_def analyze_weather_conditions_def
      check_regulatory_compliance_def validate_mission_area_def set_simulator_mode_def
      get_system_validator_def new_system_validator_def perform_system_validation_def
      validate_operational_area_def fixed_hash_def get_default_def Let_def)

text \<open>
  C1, as amended. Scenario B (the sample mission with takeoff weight 260 and controlled
  airspace without authorization, simulation set), at any location, hash and validator
  state: technical score 60, weather score 85, regulatory score 50, the confidence is
  exactly 70 and the recommendation is CAUTION.
\<close>

theorem scenario_b_assessment:
  "\<exists>a v'. analyze_mission_parameters hash_str now g (scenario_b_params\<lparr>location := loc\<rparr>) =
            Inr (a, v') \<and>
     score (technical_assessment a) = 60 \<and>
     score (weather_analysis a) = 85 \<and>
     score (regulatory_compliance a) = 50 \<and>
     ai_confidence a = 70 \<and>
     ai_recommendation a = ''CAUTION''"
proof -
  let ?p = "scenario_b_params\<lparr>location := loc\<rparr>"
  let ?lat = "get_default (latitude (get_default (location ?p) no_location)) 0"
  let ?lon = "get_default (longitude (get_default (location ?p) no_location)) 0"
  have sim: "get_default (is_simulation ?p) True = True"
    by (simp add: scenario_b_params_def demo_mission_params_def get_default_def)
  obtain v' where v: "validate_mission_area hash_str now g ?lat ?lon
       (get_default (is_simulation ?p) True) = Inr (True, v')"
    unfolding sim
    using perform_sim[of "set_simulator_mode (get_system_validator g) True" hash_str now
        ?lat ?lon]
    by (auto simp add: validate_mission_area_def set_simulator_mode_def)
  have t: "score (analyze_technical_parameters ?p) = 60"
    by (simp add: analyze_technical_parameters_def scenario_b_params_def
        demo_mission_params_def get_default_def Let_def)
  have w: "score (analyze_weather_conditions (get_default (weather ?p) no_weather)) = 85"
    by (simp add: analyze_weather_conditions_def scenario_b_params_def
        demo_mission_params_def get_default_def Let_def)
  have r: "score (check_regulatory_compliance ?p) = 50"
    by (simp add: check_regulatory_compliance_def scenario_b_params_def
        demo_mission_params_def get_default_def Let_def)
  show ?thesis
    unfolding analyze_of_validation[OF v] Let_def
    using t w r by simp
qed

text \<open>
  C1 as stated fails: on scenario B the mean is (60 + 85 + 50 + 85) / 4 = 70, which is not
  below 70, and the test \<open>>= 70\<close> gives CAUTION, not NO-GO.
\<close>

theorem scenario_b_is_caution:
  "analyze_mission_parameters fixed_hash 0 None scenario_b_params =
     Inr (\<lparr>technical_assessment =
             \<lparr>score = 60, issues = [(Red, ''Aircraft exceeds 250g FAA limit'')]\<rparr>,
           weather_analysis =
             \<lparr>score = 85, issues = [(Yellow, ''Moderate wind conditions'')]\<rparr>,
           regulatory_compliance =
             \<lparr>score = 50, issues = [(Red, ''No authorization for controlled airspace'')]\<rparr>,
           risk_factors = [], ai_confidence = 70, ai_recommendation = ''CAUTION'',
           key_concerns = []\<rparr>,
          \<lparr>simulator_mode = True,
           last_validation =
             Some \<lparr>lv_timestamp = 0, lv_position = (40.0150, -74.0060),
                   lv_result = \<lparr>valid = True, signal_strength = 97.1, system_health = 98,
                                 calibration_status = ''SIM_CALIBRATED''\<rparr>\<rparr>\<rparr>)"
  by (simp add: analyze_mission_parameters_def scenario_b_params_def demo_mission_params_def
      analyze_technical_parameters_def analyze_weather_conditions_def
      check_regulatory_compliance_def validate_mission_area_def set_simulator_mode_def
      get_system_validator_def new_system_validator_def perform_system_validation_def
      validate_operational_area_def fixed_hash_def get_default_def Let_def)

section \<open>Weight and balance\<close>

lemma moments_loop_total:
  "(\<exists>ms. moments_loop ws cs acc = Inr ms) \<longleftrightarrow>
     (\<forall>c\<in>set cs. comp_position c ''x'' \<noteq> None)"
proof (induction cs arbitrary: acc)
  case Nil
  show ?case by simp
next
  case (Cons c cs)
  show ?case
  proof (cases "comp_position c ''x''")
    case None
    then show ?thesis by auto
  next
    case (Some px)
    then show ?thesis using Cons.IH by (simp add: Let_def)
  qed
qed

lemma weight_balance_fields:
  assumes "calculate_weight_balance d = Inr r"
  shows "total_weight r = sum_list (map comp_weight (components d))"
    and "total_weight r \<noteq> 0" and "wingspan d \<noteq> 0" and "mac r \<noteq> 0"
    and "cg_from_nose r = cg_from_wing r + 100"
    and "mac r = wing_area d * 1000000 / wingspan d"
    and "neutral_point r = 0.25 * mac r"
    and "stability_margin r = (neutral_point r - cg_from_wing r) / mac r"
    and "is_stable r \<longleftrightarrow> stability_margin r > 0.05"
  using assms
  by (auto simp add: calculate_weight_balance_def py_div_def Let_def
      split: sum.splits if_splits)

lemma weight_balance_total:
  "(\<exists>r. calculate_weight_balance d = Inr r) \<longleftrightarrow>
     (\<forall>c\<in>set (components d). comp_position c ''x'' \<noteq> None) \<and>
     sum_list (map comp_weight (components d)) \<noteq> 0 \<and> wingspan d \<noteq> 0 \<and> wing_area d \<noteq> 0"
proof (cases "moments_loop 100 (components d) []")
  case (Inl e)
  then have "\<not> (\<forall>c\<in>set (components d). comp_position c ''x'' \<noteq> None)"
    using moments_loop_total[of 100 "components d" "[]"] by simp
  with Inl show ?thesis by (simp add: calculate_weight_balance_def Let_def)
next
  case (Inr ms)
  then have "\<forall>c\<in>set (components d). comp_position c ''x'' \<noteq> None"
    using moments_loop_total[of 100 "components d" "[]"] by blast
  with Inr show ?thesis
    by (auto simp add: calculate_weight_balance_def py_div_def Let_def
        split: sum.splits if_splits)
qed

text \<open>
  C6. For every aircraft design on which the computation can run (every component has an
  \<open>x\<close> position; total component weight, wingspan and wing area are non-zero) a
  weight-balance report is returned, and it satisfies: \<open>mac\<close> is the wing area converted to
  square millimetres divided by the wingspan, \<open>neutral_point\<close> is 0.25 times \<open>mac\<close>,
  \<open>stability_margin\<close> is (\<open>neutral_point\<close> - \<open>cg_from_wing\<close>) divided by \<open>mac\<close>, and
  \<open>is_stable\<close> holds if and only if the margin is greater than 0.05. By
  \<open>weight_balance_total\<close> there is no report on any other design.
\<close>

theorem weight_balance_report:
  assumes "\<forall>c\<in>set (components d). comp_position c ''x'' \<noteq> None"
    and "sum_list (map comp_weight (components d)) \<noteq> 0"
    and "wingspan d \<noteq> 0" and "wing_area d \<noteq> 0"
  shows "\<exists>r. calculate_weight_balance d = Inr r \<and>
         mac r = wing_area d * 1000000 / wingspan d \<and>
         neutral_point r = 0.25 * mac r \<and>
         stability_margin r = (neutral_point r - cg_from_wing r) / mac r \<and>
         (is_stable r \<longleftrightarrow> stability_margin r > 0.05)"
proof -
  obtain r where r: "calculate_weight_balance d = Inr r"
    using weight_balance_total[of d] assms by blast
  from weight_balance_fields(6-9)[OF r] r show ?thesis by blast
qed


text \<open>The margin exactly 0.05 is not stable, the margin 0.0501 is stable.\<close>

theorem weight_balance_report_witness:
  "calculate_weight_balance (one_component_design 130) =
     Inr \<lparr>total_weight = 10, cg_from_wing = 30, cg_from_nose = 130, mac = 150,
          neutral_point = 37.5, stability_margin = 0.05, is_stable = False,
          weight_distribution =
            [\<lparr>m_component = ''payload'', m_weight = 10, m_position = 130,
              m_relative_pos = 30, m_moment = 300\<rparr>]\<rparr> \<and>
   calculate_weight_balance (one_component_design 129.985) =
     Inr \<lparr>total_weight = 10, cg_from_wing = 29.985, cg_from_nose = 129.985, mac = 150,
          neutral_point = 37.5, stability_margin = 0.0501, is_stable = True,
          weight_distribution =
            [\<lparr>m_component = ''payload'', m_weight = 10, m_position = 129.985,
              m_relative_pos = 29.985, m_moment = 299.85\<rparr>]\<rparr>"
proof -
  have guards: "\<forall>c\<in>set (components (one_component_design px)). comp_position c ''x'' \<noteq> None"
    "sum_list (map comp_weight (components (one_component_design px))) \<noteq> 0"
    "wingspan (one_component_design px) \<noteq> 0" "wing_area (one_component_design px) \<noteq> 0"
    for px
    by (simp_all add: one_component_design_def)
  note at = weight_balance_report[OF guards, of 130] and above = weight_balance_report[OF guards, of "129.985"]
  from at above show ?thesis
    by (simp add: calculate_weight_balance_def one_component_design_def py_div_def Let_def)
qed

section \<open>No exception under the guards\<close>

lemma bound_facts:
  "(10::int) ^ 300 < float_overflow_bound" "2 * (10::int) ^ 300 < float_overflow_bound"
  by (simp_all add: float_overflow_bound_def)

lemma modest_converts: "modest v \<Longrightarrow> \<not> int_to_float_raises v"
  using bound_facts(1)
  by (cases v) (simp_all add: modest_def int_to_float_raises_def)













text \<open>Beyond the guard the code does raise: with a takeoff weight of \<open>10 ^ 400\<close> the
  technical scorer reaches \<open>weight/250\<close> and raises \<open>OverflowError\<close>.\<close>

lemma huge_prints: "\<not> str_raises 4300 (PyInt (10 ^ 400))"
proof -
  have "(10::int) ^ 400 < 10 ^ 4300" by (rule power_strict_increasing) simp_all
  moreover have "\<bar>(10::int) ^ 400\<bar> = 10 ^ 400" by (rule abs_of_nonneg) simp
  ultimately show ?thesis unfolding str_raises_def pynum.case by linarith
qed

lemma huge_divides: "true_div_raises (PyInt (10 ^ 400)) 250"
proof -
  have "float_overflow_bound \<le> 2 ^ 1024" by (simp add: float_overflow_bound_def)
  also have "(2::int) ^ 1024 \<le> 4 * 10 ^ 397" by simp
  finally have "(of_int float_overflow_bound :: rat) \<le> of_int (4 * 10 ^ 397)"
    by (simp only: of_int_le_iff)
  also have "(of_int (4 * 10 ^ 397) :: rat) = \<bar>of_int (10 ^ 400) / of_int 250\<bar>"
    by simp
  finally show ?thesis unfolding true_div_raises_def pynum.case .
qed

lemma sample_battery_converts: "\<not> int_to_float_raises (PyInt 25)"
  by (rule modest_converts) (simp add: modest_def)

lemma huge_weight_raises:
  "analyze_technical_parameters_call 4300 py_huge_weight_mission = Inl OverflowError"
proof -
  have "technical_raises 4300 py_huge_weight_mission = Some OverflowError"
    using huge_prints huge_divides sample_battery_converts
    by (simp add: technical_raises_def py_huge_weight_mission_def py_demo_mission_def
        get_default_def Let_def)
  then show ?thesis by (simp add: analyze_technical_parameters_call_def)
qed






section \<open>Flight planning and the go/no-go decision\<close>

lemma factor_labels:
  "replace_underscore ''faa_compliant'' = ''faa compliant''"
  "replace_underscore ''weather_acceptable'' = ''weather acceptable''"
  "replace_underscore ''terrain_clearance'' = ''terrain clearance''"
  "replace_underscore ''battery_reserve'' = ''battery reserve''"
  "replace_underscore ''aircraft_ready'' = ''aircraft ready''"
  by (simp_all add: replace_underscore_def)

lemma decision_value:
  assumes "fp_faa_compliance fp = Some c" and "fp_weather fp = Some w"
    and "fp_terrain fp = Some t" and "fp_performance fp = Some p"
  shows "make_go_no_go_decision fp =
     (let g = (compliant c \<and> flight_risk w \<noteq> Some ''HIGH_RISK'' \<and>
               get_default (terrain_clearance t) True \<and>
               perf_estimated_flight_time p > 10 \<and> True)
      in Inr \<lparr>go = g,
              confidence_level = (if g then ''HIGH'' else ''LOW''),
              reasons =
                (if \<not> compliant c then [''Failed faa compliant check''] else []) @
                (if flight_risk w = Some ''HIGH_RISK''
                 then [''Failed weather acceptable check''] else []) @
                (if \<not> get_default (terrain_clearance t) True
                 then [''Failed terrain clearance check''] else []) @
                (if \<not> perf_estimated_flight_time p > 10
                 then [''Failed battery reserve check''] else []),
              dec_recommendations = get_default (recommendations c) []\<rparr>)"
  using assms
  by (simp add: make_go_no_go_decision_def Let_def factor_labels)

lemma decision_key_error:
  "make_go_no_go_decision fp = Inl e \<Longrightarrow>
     e = KeyError \<and> (fp_faa_compliance fp = None \<or> fp_weather fp = None \<or>
                     fp_terrain fp = None \<or> fp_performance fp = None)"
  by (auto simp add: make_go_no_go_decision_def Let_def split: option.splits)

lemma compliance_without_flight_time:
  assumes "fp_estimated_flight_time fp = None"
  shows "''Insufficient battery reserve. Need at least 5min reserve''
           \<in> set (violations (check_flight_compliance fp))"
    and "\<not> compliant (check_flight_compliance fp)"
  using assms
  by (simp_all add: check_flight_compliance_def Let_def get_default_def
      safety_margins_battery_reserve_def)

lemma plan_flight_no_waypoints:
  assumes "pm_waypoints m = None \<or> pm_waypoints m = Some []"
  shows "plan_flight files m = Inl ValueError"
  using assms
  by (auto simp add: plan_flight_def Let_def get_terrain_profile_def
      check_terrain_clearance_def get_default_def)

lemma plan_flight_returns:
  assumes "pm_waypoints m = Some (wp # wps)"
    and "files (''aircraft_builder/'' @
                (case aircraft_config m of None \<Rightarrow> ''None'' | Some f \<Rightarrow> f)) = None"
  shows "\<exists>fp. plan_flight files m = Inr fp"
  using assms
  by (simp add: plan_flight_def Let_def get_terrain_profile_def check_terrain_clearance_def
      load_aircraft_data_def default_aircraft_data_def calculate_performance_def
      make_go_no_go_decision_def get_default_def)

text \<open>
  C9. For every flight plan that carries the four keys the decision reads, the decision is
  returned, its \<open>go\<close> field is the conjunction of the five factors (FAA compliance, weather
  risk class not HIGH\_RISK, terrain clearance, flight time of the performance record above
  10 minutes, and the constant aircraft-ready flag), and \<open>reasons\<close> holds, in factor order,
  one \<open>Failed ... check\<close> label for each false factor and nothing else; it is empty when
  \<open>go\<close> is true.
\<close>

theorem go_no_go_factors:
  assumes "fp_faa_compliance fp = Some c" and "fp_weather fp = Some w"
    and "fp_terrain fp = Some t" and "fp_performance fp = Some p"
  shows "\<exists>d. make_go_no_go_decision fp = Inr d \<and>
     (go d \<longleftrightarrow> compliant c \<and> flight_risk w \<noteq> Some ''HIGH_RISK'' \<and>
               get_default (terrain_clearance t) True \<and>
               perf_estimated_flight_time p > 10 \<and> True) \<and>
     confidence_level d = (if go d then ''HIGH'' else ''LOW'') \<and>
     reasons d =
       (if \<not> compliant c then [''Failed faa compliant check''] else []) @
       (if flight_risk w = Some ''HIGH_RISK''
        then [''Failed weather acceptable check''] else []) @
       (if \<not> get_default (terrain_clearance t) True
        then [''Failed terrain clearance check''] else []) @
       (if \<not> perf_estimated_flight_time p > 10
        then [''Failed battery reserve check''] else []) \<and>
     (go d \<longrightarrow> reasons d = [])"
  unfolding decision_value[OF assms] Let_def by auto

theorem go_no_go_factors_witness:
  "make_go_no_go_decision (decision_plan True ''MODERATE_RISK'' True 12) =
     Inr \<lparr>go = True, confidence_level = ''HIGH'', reasons = [],
          dec_recommendations = []\<rparr> \<and>
   make_go_no_go_decision (decision_plan False ''HIGH_RISK'' False 10) =
     Inr \<lparr>go = False, confidence_level = ''LOW'',
          reasons = [''Failed faa compliant check'', ''Failed weather acceptable check'',
                     ''Failed terrain clearance check'', ''Failed battery reserve check''],
          dec_recommendations = []\<rparr>"
proof -
  have keys: "fp_faa_compliance (decision_plan True ''MODERATE_RISK'' True 12) =
       Some \<lparr>compliant = True, violations = [], warnings = [], recommendations = Some []\<rparr>"
    "fp_weather (decision_plan True ''MODERATE_RISK'' True 12) =
       Some \<lparr>metar = None, flight_risk = Some ''MODERATE_RISK''\<rparr>"
    "fp_terrain (decision_plan True ''MODERATE_RISK'' True 12) =
       Some \<lparr>max_terrain_elevation = 500, obstacles = [], minimum_safe_altitude = 700,
             terrain_clearance = Some True\<rparr>"
    "fp_performance (decision_plan True ''MODERATE_RISK'' True 12) =
       Some \<lparr>cruise_speed = 1.4, max_speed = 1.7, stall_speed = 1.1,
             perf_estimated_flight_time = 12, perf_range = 10, wind_impact = 0,
             perf_battery_reserve = 5\<rparr>"
    by (simp_all add: decision_plan_def empty_flight_plan_def)
  from go_no_go_factors[OF keys] show ?thesis
    by (simp add: make_go_no_go_decision_def decision_plan_def empty_flight_plan_def
        replace_underscore_def get_default_def Let_def)
qed

text \<open>
  C3. Every flight plan that \<open>plan_flight\<close> returns has no top-level
  \<open>estimated_flight_time\<close>; its FAA compliance result contains the
  insufficient-battery-reserve violation, \<open>compliant\<close> is false and the decision's \<open>go\<close> is
  false.
\<close>

theorem plan_flight_never_go:
  assumes "plan_flight files m = Inr fp"
  shows "fp_estimated_flight_time fp = None \<and>
     (\<exists>c d. fp_faa_compliance fp = Some c \<and> fp_go_no_go fp = Some d \<and>
        ''Insufficient battery reserve. Need at least 5min reserve'' \<in> set (violations c) \<and>
        \<not> compliant c \<and> \<not> go d)"
proof -
  from assms obtain tr pf where
    tr: "get_terrain_profile (get_default (pm_waypoints m) []) = Inr tr" and
    pf: "calculate_performance (load_aircraft_data files (aircraft_config m)) get_weather =
           Inr pf"
    by (auto simp add: plan_flight_def Let_def split: sum.splits)
  define fp0 where "fp0 =
     \<lparr>fp_aircraft = Some (load_aircraft_data files (aircraft_config m)),
      fp_weather = Some get_weather,
      fp_terrain = Some tr,
      fp_performance = Some pf,
      fp_waypoints = Some (get_default (pm_waypoints m) []),
      fp_faa_compliance = None,
      fp_go_no_go = None,
      fp_max_altitude = None,
      fp_estimated_flight_time = None,
      fp_over_populated_area = None,
      fp_wind_speed = None,
      fp_terrain_elevation = None,
      fp_near_airport = None\<rparr>"
  define c where "c = check_flight_compliance fp0"
  define fp1 where "fp1 = fp0\<lparr>fp_faa_compliance := Some c\<rparr>"
  have none0: "fp_estimated_flight_time fp0 = None" by (simp add: fp0_def)
  have viol: "''Insufficient battery reserve. Need at least 5min reserve''
                \<in> set (violations c)"
    and nc: "\<not> compliant c"
    unfolding c_def using compliance_without_flight_time[OF none0] by simp_all
  have keys: "fp_faa_compliance fp1 = Some c" "fp_weather fp1 = Some get_weather"
    "fp_terrain fp1 = Some tr" "fp_performance fp1 = Some pf"
    by (simp_all add: fp1_def fp0_def)
  obtain d where d: "make_go_no_go_decision fp1 = Inr d" and nogo: "\<not> go d"
    using decision_value[OF keys] nc by (simp add: Let_def)
  have "plan_flight files m = Inr (fp1\<lparr>fp_go_no_go := Some d\<rparr>)"
    using tr pf d by (simp add: plan_flight_def Let_def fp1_def c_def fp0_def)
  with assms have fp: "fp = fp1\<lparr>fp_go_no_go := Some d\<rparr>" by simp
  show ?thesis
    using viol nc nogo by (simp add: fp fp1_def fp0_def)
qed

text \<open>The sample mission of \<open>main\<close>, with no configuration file on disk: 46.624 minutes of
  flight time in the performance record, and still the battery-reserve violation.\<close>

theorem plan_flight_never_go_witness:
  "plan_flight Map.empty main_mission =
     Inr \<lparr>fp_aircraft = Some default_aircraft_data,
          fp_weather =
            Some \<lparr>metar = Some \<lparr>obs_wind_speed = Some 8, obs_visibility = Some 10,
                                 obs_ceiling = Some 5000\<rparr>,
                  flight_risk = Some ''LOW_RISK''\<rparr>,
          fp_terrain =
            Some \<lparr>max_terrain_elevation = 500,
                  obstacles =
                    [\<lparr>ob_location = \<lparr>wp_lat = Some 37.7749, wp_lon = Some (-122.4194),
                                      wp_altitude = Some 200\<rparr>,
                      ob_height = 200, ob_type = ''tree_line''\<rparr>],
                  minimum_safe_altitude = 700,
                  terrain_clearance = Some False\<rparr>,
          fp_performance =
            Some \<lparr>cruise_speed = 1.4, max_speed = 1.7, stall_speed = 1.1,
                  perf_estimated_flight_time = 46.624, perf_range = 52.21888,
                  wind_impact = 0.8, perf_battery_reserve = 5\<rparr>,
          fp_waypoints = pm_waypoints main_mission,
          fp_faa_compliance =
            Some \<lparr>compliant = False,
                  violations = [''Insufficient battery reserve. Need at least 5min reserve''],
                  warnings = [], recommendations = Some []\<rparr>,
          fp_go_no_go =
            Some \<lparr>go = False, confidence_level = ''LOW'',
                  reasons = [''Failed faa compliant check'',
                             ''Failed terrain clearance check''],
                  dec_recommendations = []\<rparr>,
          fp_max_altitude = None, fp_estimated_flight_time = None,
          fp_over_populated_area = None, fp_wind_speed = None,
          fp_terrain_elevation = None, fp_near_airport = None\<rparr>"
proof -
  obtain fp where fp: "plan_flight Map.empty main_mission = Inr fp"
    using plan_flight_returns[of main_mission _ _ Map.empty]
    by (auto simp add: main_mission_def)
  note plan_flight_never_go[OF fp]
  then show ?thesis
    by (simp add: plan_flight_def main_mission_def load_aircraft_data_def
        default_aircraft_data_def get_weather_def assess_flight_risk_def
        get_terrain_profile_def check_terrain_clearance_def calculate_performance_def
        no_weather_obs_def check_flight_compliance_def generate_safety_recommendations_def
        part_107_max_altitude_def safety_margins_battery_reserve_def
        make_go_no_go_decision_def replace_underscore_def get_default_def upt_rec Let_def)
qed

end
